theory Spec2Isabelle
  imports Complex_Main
begin

section \<open>Values of the Python program\<close>

text \<open>
  A Python float is a double: a finite number, an infinity or not-a-number. The finite
  ones are carried as the real number they denote. The program only compares floats and
  passes them on; comparisons of doubles are exact, so no rounding is involved here.
  Rounding happens in conversions from text and from very large integers and in the
  percentage formatting, which are builtins of the interpreter and are parameters below.
\<close>

datatype pyfloat = Fin real | PInf | NInf | NaN

datatype pyexn =
    TypeError | ValueError | OverflowError | AttributeError | IndexError
  | LibError string

text \<open>Python values that reach the handlers: JSON bodies, attributes, return values.\<close>

datatype pyval =
    PNone
  | PBool bool
  | PInt int
  | PFloat pyfloat
  | PStr string
  | PList "pyval list"
  | PDict "(string \<times> pyval) list"

text \<open>Sequencing of fallible steps: the first exception raised ends the block.\<close>

definition bind_exn :: "pyexn + 'a \<Rightarrow> ('a \<Rightarrow> pyexn + 'b) \<Rightarrow> pyexn + 'b" where
  "bind_exn m f = (case m of Inl e \<Rightarrow> Inl e | Inr x \<Rightarrow> f x)"

fun mapM_exn :: "('a \<Rightarrow> pyexn + 'b) \<Rightarrow> 'a list \<Rightarrow> pyexn + 'b list" where
  "mapM_exn f [] = Inr []"
| "mapM_exn f (x # xs) =
     bind_exn (f x) (\<lambda>y. bind_exn (mapM_exn f xs) (\<lambda>ys. Inr (y # ys)))"

subsection \<open>Float comparisons (IEEE 754: every comparison with not-a-number is false)\<close>

fun isnan :: "pyfloat \<Rightarrow> bool" where
  "isnan NaN = True"
| "isnan _ = False"

fun fle :: "pyfloat \<Rightarrow> pyfloat \<Rightarrow> bool" where
  "fle NaN _ = False"
| "fle _ NaN = False"
| "fle NInf _ = True"
| "fle _ PInf = True"
| "fle (Fin a) (Fin b) = (a \<le> b)"
| "fle PInf _ = False"
| "fle _ NInf = False"

fun feq :: "pyfloat \<Rightarrow> pyfloat \<Rightarrow> bool" where
  "feq NaN _ = False"
| "feq _ NaN = False"
| "feq (Fin a) (Fin b) = (a = b)"
| "feq PInf PInf = True"
| "feq NInf NInf = True"
| "feq _ _ = False"

fun fgt :: "pyfloat \<Rightarrow> pyfloat \<Rightarrow> bool" where
  "fgt NaN _ = False"
| "fgt _ NaN = False"
| "fgt (Fin a) (Fin b) = (a > b)"
| "fgt PInf PInf = False"
| "fgt PInf _ = True"
| "fgt NInf _ = False"
| "fgt (Fin a) PInf = False"
| "fgt (Fin a) NInf = True"

section \<open>Libraries and builtins the program calls\<close>

text \<open>
  The repository is one file; everything it calls from the interpreter and from pyproj,
  rasterio, shapely, geopandas, numpy and the pickled estimators is outside it. Each such
  call is a parameter: a field of the record of the object it is a method of, or of
  \<open>lib\<close> for module-level functions. A call that can raise returns a sum.
\<close>

text \<open>A rasterio dataset opened for reading: the attributes and methods \<open>get_slope\<close> uses.
  \<open>index x y\<close> is \<open>src.index(x, y)\<close>; \<open>read_px row col\<close> is the element \<open>[0, 0]\<close> of
  \<open>src.read(1, window=((row, row + 1), (col, col + 1)), boundless=True)\<close>.\<close>

record raster =
  crs :: string
  bounds_left :: pyfloat
  bounds_bottom :: pyfloat
  bounds_right :: pyfloat
  bounds_top :: pyfloat
  height :: int
  width :: int
  nodata :: "pyfloat option"
  index :: "pyfloat \<Rightarrow> pyfloat \<Rightarrow> pyexn + (int \<times> int)"
  read_px :: "int \<Rightarrow> int \<Rightarrow> pyexn + pyfloat"

text \<open>A GeoDataFrame: its rows in load order (geometry and the columns of the row), and
  its spatial index, \<open>sindex_intersection b\<close> being \<open>soil_gdf.sindex.intersection(b)\<close>: the
  positions of the candidate rows, in the order the index yields them.\<close>

record 'g gdf =
  rows :: "('g \<times> (string \<times> pyval) list) list"
  sindex_intersection :: "(pyfloat \<times> pyfloat \<times> pyfloat \<times> pyfloat) \<Rightarrow> pyexn + nat list"

text \<open>The pickled estimators: \<open>scaler.transform\<close> and \<open>model.predict_proba\<close> on a
  two-dimensional array.\<close>

record scaler_obj =
  transform :: "pyval list list \<Rightarrow> pyexn + pyfloat list list"

record model_obj =
  predict_proba :: "pyfloat list list \<Rightarrow> pyexn + pyfloat list list"

text \<open>
  Module-level library functions and interpreter builtins:
  \<^item> \<open>float_of_str s\<close>: \<open>float(s)\<close> on a string, \<open>None\<close> for ValueError;
  \<^item> \<open>int_of_str s\<close>: \<open>int(s)\<close> on a string, \<open>None\<close> for ValueError;
  \<^item> \<open>float_of_bigint i\<close>: \<open>float(i)\<close> for an integer beyond \<open>2 ^ 53\<close> in magnitude
    (rounded to a double), \<open>None\<close> for OverflowError;
  \<^item> \<open>str_of v\<close>: \<open>str(v)\<close> for a value that is not a string;
  \<^item> \<open>pct_2f p\<close>: the text of \<open>f"{p * 100:.2f}"\<close>;
  \<^item> \<open>proj_transform c lon lat\<close>:
    \<open>Transformer.from_crs("EPSG:4326", c, always_xy=True).transform(lon, lat)\<close>;
  \<^item> \<open>rasterio_open path\<close>: \<open>rasterio.open(path)\<close>;
  \<^item> \<open>point_is_valid lon lat\<close>: \<open>Point(lon, lat).is_valid\<close>;
  \<^item> \<open>intersects g (lon, lat)\<close>: whether geometry \<open>g\<close> intersects \<open>Point(lon, lat)\<close>.
\<close>

record 'g lib =
  float_of_str :: "string \<Rightarrow> pyfloat option"
  int_of_str :: "string \<Rightarrow> int option"
  float_of_bigint :: "int \<Rightarrow> pyfloat option"
  str_of :: "pyval \<Rightarrow> string"
  pct_2f :: "pyfloat \<Rightarrow> string"
  proj_transform :: "string \<Rightarrow> pyfloat \<Rightarrow> pyfloat \<Rightarrow> pyexn + (pyfloat \<times> pyfloat)"
  rasterio_open :: "string \<Rightarrow> pyexn + raster"
  point_is_valid :: "pyfloat \<Rightarrow> pyfloat \<Rightarrow> bool"
  intersects :: "'g \<Rightarrow> (pyfloat \<times> pyfloat) \<Rightarrow> pyexn + bool"

text \<open>The module's globals after the loading blocks at import time.\<close>

record 'g server =
  soil_gdf :: "'g gdf option"
  slope_tif :: "string option"
  model :: "model_obj option"
  scaler :: "scaler_obj option"

section \<open>Coordinate conversion and slope extraction\<close>

definition convert_coords :: "'g lib \<Rightarrow> pyfloat \<Rightarrow> pyfloat \<Rightarrow> string \<Rightarrow> pyexn + (pyfloat \<times> pyfloat)" where
  "convert_coords L lon lat c = proj_transform L c lon lat"

text \<open>The body of the \<open>with\<close> block of \<open>get_slope\<close>, for an opened dataset.\<close>

definition sample_slope :: "'g lib \<Rightarrow> raster \<Rightarrow> pyfloat \<Rightarrow> pyfloat \<Rightarrow> pyexn + pyval" where
  "sample_slope L src lon lat =
     bind_exn (convert_coords L lon lat (crs src)) (\<lambda>(x, y).
       if \<not> (fle (bounds_left src) x \<and> fle x (bounds_right src)
              \<and> fle (bounds_bottom src) y \<and> fle y (bounds_top src))
       then Inr PNone
       else bind_exn (index src x y) (\<lambda>(row, col).
         if 0 \<le> row \<and> row < height src \<and> 0 \<le> col \<and> col < width src
         then bind_exn (read_px src row col) (\<lambda>slope_value.
           if (case nodata src of None \<Rightarrow> False | Some nd \<Rightarrow> feq slope_value nd)
              \<or> isnan slope_value
           then Inr PNone
           else Inr (PFloat slope_value))
         else Inr PNone))"

text \<open>\<open>get_slope\<close>: the guard on the global, then the \<open>try\<close> whose handler catches every
  exception of the block, opening the file included, and returns a text.\<close>

definition get_slope :: "'g lib \<Rightarrow> 'g server \<Rightarrow> pyfloat \<Rightarrow> pyfloat \<Rightarrow> pyexn + pyval" where
  "get_slope L S lon lat =
     (case slope_tif S of
        None \<Rightarrow> Inr (PStr ''Error: Raster file not loaded on server'')
      | Some path \<Rightarrow>
          (case bind_exn (rasterio_open L path) (\<lambda>src. sample_slope L src lon lat) of
             Inl e \<Rightarrow> Inr (PStr ''Error during processing'')
           | Inr v \<Rightarrow> Inr v))"

section \<open>Soil lookup\<close>

text \<open>\<open>df.iloc[positions]\<close>: the rows at the positions, in the order of the positions;
  IndexError when a position is out of range.\<close>

definition iloc :: "'a list \<Rightarrow> nat list \<Rightarrow> pyexn + 'a list" where
  "iloc xs idx =
     (if list_all (\<lambda>i. i < length xs) idx then Inr (map (\<lambda>i. xs ! i) idx) else Inl IndexError)"

text \<open>\<open>row.get(key, default)\<close> on a row: the default when there is no such column.\<close>

definition row_get :: "(string \<times> pyval) list \<Rightarrow> string \<Rightarrow> pyval \<Rightarrow> pyval" where
  "row_get props k d = (case map_of props k of None \<Rightarrow> d | Some v \<Rightarrow> v)"

text \<open>The \<open>try\<close> block of \<open>get_soil_type\<close>. Selecting with the boolean mask keeps the order
  of \<open>possible_matches\<close>, which is the order of the positions the index returned.\<close>

definition soil_lookup :: "'g lib \<Rightarrow> 'g gdf \<Rightarrow> pyfloat \<Rightarrow> pyfloat \<Rightarrow> pyexn + pyval" where
  "soil_lookup L G lon lat =
     bind_exn (sindex_intersection G (lon, lat, lon, lat)) (\<lambda>possible_matches_index.
     bind_exn (iloc (rows G) possible_matches_index) (\<lambda>possible_matches.
     bind_exn (mapM_exn (\<lambda>r. intersects L (fst r) (lon, lat)) possible_matches) (\<lambda>mask.
       (case map fst (filter snd (zip possible_matches mask)) of
          [] \<Rightarrow> Inr (PStr ''Unknown'')
        | r # _ \<Rightarrow> Inr (row_get (snd r) ''SNUM'' (PStr ''Unknown''))))))"

definition get_soil_type :: "'g lib \<Rightarrow> 'g server \<Rightarrow> pyfloat \<Rightarrow> pyfloat \<Rightarrow> pyexn + pyval" where
  "get_soil_type L S lon lat =
     (case soil_gdf S of
        None \<Rightarrow> Inr (PStr ''Error: Shapefile not loaded'')
      | Some G \<Rightarrow>
          if \<not> point_is_valid L lon lat
          then Inr (PStr ''Error: Invalid coordinates for soil lookup'')
          else (case soil_lookup L G lon lat of
                  Inl e \<Rightarrow> Inr (PStr ''Error during processing'')
                | Inr v \<Rightarrow> Inr v))"

section \<open>Builtin conversions\<close>

text \<open>\<open>float(v)\<close>. An integer up to \<open>2 ^ 53\<close> in magnitude converts exactly.\<close>

fun py_float :: "'g lib \<Rightarrow> pyval \<Rightarrow> pyexn + pyfloat" where
  "py_float L PNone = Inl TypeError"
| "py_float L (PBool b) = Inr (Fin (if b then 1 else 0))"
| "py_float L (PInt i) =
     (if \<bar>i\<bar> \<le> 2 ^ 53 then Inr (Fin (of_int i))
      else (case float_of_bigint L i of None \<Rightarrow> Inl OverflowError | Some f \<Rightarrow> Inr f))"
| "py_float L (PFloat f) = Inr f"
| "py_float L (PStr s) = (case float_of_str L s of None \<Rightarrow> Inl ValueError | Some f \<Rightarrow> Inr f)"
| "py_float L (PList xs) = Inl TypeError"
| "py_float L (PDict kvs) = Inl TypeError"

text \<open>\<open>int(v)\<close>. A float is truncated towards zero.\<close>

fun py_int :: "'g lib \<Rightarrow> pyval \<Rightarrow> pyexn + int" where
  "py_int L PNone = Inl TypeError"
| "py_int L (PBool b) = Inr (if b then 1 else 0)"
| "py_int L (PInt i) = Inr i"
| "py_int L (PFloat NaN) = Inl ValueError"
| "py_int L (PFloat PInf) = Inl OverflowError"
| "py_int L (PFloat NInf) = Inl OverflowError"
| "py_int L (PFloat (Fin r)) = Inr (if 0 \<le> r then \<lfloor>r\<rfloor> else \<lceil>r\<rceil>)"
| "py_int L (PStr s) = (case int_of_str L s of None \<Rightarrow> Inl ValueError | Some i \<Rightarrow> Inr i)"
| "py_int L (PList xs) = Inl TypeError"
| "py_int L (PDict kvs) = Inl TypeError"

text \<open>\<open>str(v)\<close>.\<close>

definition py_str :: "'g lib \<Rightarrow> pyval \<Rightarrow> string" where
  "py_str L v = (case v of PStr s \<Rightarrow> s | _ \<Rightarrow> str_of L v)"

text \<open>\<open>data.get(key, default)\<close>: only a dict has the method. The list of a \<open>PDict\<close> holds
  the items of the dict.\<close>

definition dict_get :: "pyval \<Rightarrow> string \<Rightarrow> pyval \<Rightarrow> pyexn + pyval" where
  "dict_get data k d =
     (case data of
        PDict kvs \<Rightarrow> Inr (case map_of kvs k of None \<Rightarrow> d | Some v \<Rightarrow> v)
      | _ \<Rightarrow> Inl AttributeError)"

text \<open>\<open>numpy.argmax\<close> on a one-dimensional float array: the first position of the
  maximum, not-a-number counting as the maximum; ValueError on an empty array.\<close>

fun argmax_from :: "pyfloat list \<Rightarrow> nat \<Rightarrow> nat \<Rightarrow> pyfloat \<Rightarrow> nat" where
  "argmax_from [] i bi bv = bi"
| "argmax_from (x # xs) i bi bv =
     (if isnan bv then bi
      else if isnan x \<or> fgt x bv then argmax_from xs (i + 1) i x
      else argmax_from xs (i + 1) bi bv)"

definition np_argmax :: "pyfloat list \<Rightarrow> pyexn + nat" where
  "np_argmax xs = (case xs of [] \<Rightarrow> Inl ValueError | x # rest \<Rightarrow> Inr (argmax_from rest 1 0 x))"

text \<open>The builtin \<open>max\<close> over the elements: the running maximum is replaced by an element
  that compares greater; ValueError on an empty sequence.\<close>

definition py_max :: "pyfloat list \<Rightarrow> pyexn + pyfloat" where
  "py_max xs =
     (case xs of [] \<Rightarrow> Inl ValueError
      | x # rest \<Rightarrow> Inr (foldl (\<lambda>m y. if fgt y m then y else m) x rest))"

section \<open>The request handlers\<close>

text \<open>A response: the JSON body and the status code. \<open>ErrorStr e\<close> is the body
  \<open>{"error": str(e)}\<close>.\<close>

datatype body =
    ErrorText string
  | ErrorStr pyexn
  | GeoData "pyfloat option" "string option"
  | Prediction string string

type_synonym response = "body \<times> nat"

text \<open>\<open>request.args.get(key, type=float)\<close>: \<open>None\<close> when the key is missing or its text
  does not convert.\<close>

definition args_get_float :: "'g lib \<Rightarrow> (string \<times> string) list \<Rightarrow> string \<Rightarrow> pyfloat option" where
  "args_get_float L args k = (case map_of args k of None \<Rightarrow> None | Some s \<Rightarrow> float_of_str L s)"

text \<open>\<open>get_geo_data\<close> has no \<open>try\<close>: an exception raised in it leaves the handler.\<close>

definition get_geo_data :: "'g lib \<Rightarrow> 'g server \<Rightarrow> (string \<times> string) list \<Rightarrow> pyexn + response" where
  "get_geo_data L S args =
     (case (args_get_float L args ''lat'', args_get_float L args ''lon'') of
        (Some lat, Some lon) \<Rightarrow>
          bind_exn (get_slope L S lon lat) (\<lambda>slope.
          bind_exn (get_soil_type L S lon lat) (\<lambda>soil.
          bind_exn (if slope \<noteq> PNone then bind_exn (py_float L slope) (\<lambda>f. Inr (Some f))
                    else Inr None) (\<lambda>slope_out.
            Inr (GeoData slope_out (if soil \<noteq> PNone then Some (py_str L soil) else None), 200))))
      | _ \<Rightarrow> Inr (ErrorText ''Missing or invalid coordinates'', 400))"

text \<open>The keys of the fourteen \<open>float(data.get(key, 0))\<close> entries of the feature list, in
  the order of the source.\<close>

definition float_keys :: "string list" where
  "float_keys =
     [''slope'', ''soil_moisture'',
      ''rainfall-3-hr'', ''rainfall-6-hr'', ''rainfall-12-hr'',
      ''rain-intensity-3-hr'', ''rain-intensity-6hr'', ''rain-intensity-12-hr'',
      ''rainfall-1-day'', ''rainfall-3-day'', ''rainfall-5-day'',
      ''rain-intensity-1-day'', ''rain-intensity-3-day'', ''rain-intensity-5-day'']"

text \<open>The feature list: \<open>int(data.get("soil_type", 0))\<close>, then the float entries. The
  entries are evaluated in order and the first exception ends the evaluation.\<close>

definition build_features :: "'g lib \<Rightarrow> pyval \<Rightarrow> pyexn + pyval list" where
  "build_features L data =
     bind_exn (bind_exn (dict_get data ''soil_type'' (PInt 0)) (py_int L)) (\<lambda>soil_type.
     bind_exn (mapM_exn (\<lambda>k. bind_exn (dict_get data k (PInt 0)) (py_float L)) float_keys) (\<lambda>fs.
       Inr (PInt soil_type # map PFloat fs)))"

text \<open>\<open>a[0]\<close> on the two-dimensional result of \<open>predict_proba\<close>.\<close>

definition first_row :: "'a list \<Rightarrow> pyexn + 'a" where
  "first_row xs = (case xs of [] \<Rightarrow> Inl IndexError | x # _ \<Rightarrow> Inr x)"

text \<open>The \<open>try\<close> block of \<open>predict\<close>; \<open>rq\<close> is the outcome of \<open>request.json\<close>.\<close>

definition predict_try :: "'g lib \<Rightarrow> model_obj \<Rightarrow> scaler_obj \<Rightarrow> pyexn + pyval \<Rightarrow> pyexn + response" where
  "predict_try L m sc rq =
     bind_exn rq (\<lambda>data.
     bind_exn (build_features L data) (\<lambda>features.
     bind_exn (transform sc [features]) (\<lambda>features_scaled.
     bind_exn (bind_exn (predict_proba m features_scaled) first_row) (\<lambda>probabilities.
     bind_exn (np_argmax probabilities) (\<lambda>prediction.
     bind_exn (py_max probabilities) (\<lambda>mx.
       Inr (Prediction (if prediction = 1 then ''Landslide'' else ''No Landslide'')
                       (pct_2f L mx @ ''%''), 200)))))))"

text \<open>\<open>predict\<close>: the guard on the two globals (a loaded estimator is taken to be truthy),
  then the \<open>try\<close> whose handler answers 400 with the text of the exception.\<close>

definition predict :: "'g lib \<Rightarrow> 'g server \<Rightarrow> pyexn + pyval \<Rightarrow> pyexn + response" where
  "predict L S rq =
     (case (model S, scaler S) of
        (Some m, Some sc) \<Rightarrow>
          (case predict_try L m sc rq of
             Inl e \<Rightarrow> Inr (ErrorStr e, 400)
           | Inr r \<Rightarrow> Inr r)
      | _ \<Rightarrow> Inr (ErrorText ''Machine learning models are not loaded on the server'', 503))"

text \<open>Loading the two pickles at import time: one \<open>try\<close> around both, whose handler sets
  both globals to \<open>None\<close>. The scaler is read only after the model was.\<close>

definition load_models :: "pyexn + model_obj \<Rightarrow> pyexn + scaler_obj \<Rightarrow> model_obj option \<times> scaler_obj option" where
  "load_models model_file scaler_file =
     (case model_file of
        Inl e \<Rightarrow> (None, None)
      | Inr m \<Rightarrow> (case scaler_file of Inl e \<Rightarrow> (None, None) | Inr sc \<Rightarrow> (Some m, Some sc)))"

section \<open>Notions of the specification\<close>





definition out_of_domain :: "pyfloat \<Rightarrow> pyfloat \<Rightarrow> bool" where
  "out_of_domain lon lat =
     (case (lon, lat) of (Fin x, Fin y) \<Rightarrow> \<bar>y\<bar> > 90 \<or> \<bar>x\<bar> > 180 | _ \<Rightarrow> True)"

definition int_field :: "'g lib \<Rightarrow> (string \<times> pyval) list \<Rightarrow> string \<Rightarrow> int \<Rightarrow> bool" where
  "int_field L kvs k i = (case map_of kvs k of None \<Rightarrow> i = 0 | Some v \<Rightarrow> py_int L v = Inr i)"

definition float_field :: "'g lib \<Rightarrow> (string \<times> pyval) list \<Rightarrow> string \<Rightarrow> pyfloat \<Rightarrow> bool" where
  "float_field L kvs k f = (case map_of kvs k of None \<Rightarrow> f = Fin 0 | Some v \<Rightarrow> py_float L v = Inr f)"

section \<open>Concrete instances for evaluating the definitions\<close>

text \<open>
  The theorems below hold for every library; the instances here serve to evaluate them.
  \<open>sample_float_of_str\<close> and \<open>sample_int_of_str\<close> convert non-empty strings of decimal
  digits and reject everything else (Python accepts more forms; on digit strings and on
  texts that are no number at all they agree with it). \<open>sample_proj\<close> leaves coordinates
  of the geographic domain as they are and, like pyproj without error checking, answers
  a failed transformation with infinities. Geometries are axis-parallel boxes.
\<close>

fun digits_val :: "string \<Rightarrow> nat \<Rightarrow> nat option" where
  "digits_val [] acc = Some acc"
| "digits_val (c # cs) acc =
     (let n = (of_char c :: nat) in
      if 48 \<le> n \<and> n \<le> 57 then digits_val cs (10 * acc + (n - 48)) else None)"

definition sample_float_of_str :: "string \<Rightarrow> pyfloat option" where
  "sample_float_of_str s =
     (if s = [] then None else map_option (\<lambda>n. Fin (real n)) (digits_val s 0))"

definition sample_int_of_str :: "string \<Rightarrow> int option" where
  "sample_int_of_str s = (if s = [] then None else map_option int (digits_val s 0))"

definition sample_raster :: raster where
  "sample_raster = \<lparr>
     crs = ''EPSG:32651'',
     bounds_left = Fin 0, bounds_bottom = Fin 0, bounds_right = Fin 2, bounds_top = Fin 2,
     height = 2, width = 2,
     nodata = Some (Fin (- 9999)),
     index = (\<lambda>x y. case (x, y) of
                (Fin a, Fin b) \<Rightarrow> Inr (\<lfloor>2 - b\<rfloor>, \<lfloor>a\<rfloor>)
              | _ \<Rightarrow> Inl (LibError ''index'')),
     read_px = (\<lambda>row col.
        Inr (if row = 0 \<and> col = 0 then Fin 4.7
             else if row = 0 \<and> col = 1 then Fin (- 9999)
             else if row = 1 \<and> col = 0 then NaN
             else Fin 12)) \<rparr>"

type_synonym box = "real \<times> real \<times> real \<times> real"

definition box_intersects :: "box \<Rightarrow> (pyfloat \<times> pyfloat) \<Rightarrow> pyexn + bool" where
  "box_intersects g p =
     (case g of (l, b, r, t) \<Rightarrow> case p of (x, y) \<Rightarrow>
        Inr (fle (Fin l) x \<and> fle x (Fin r) \<and> fle (Fin b) y \<and> fle y (Fin t)))"

definition sample_proj :: "string \<Rightarrow> pyfloat \<Rightarrow> pyfloat \<Rightarrow> pyexn + (pyfloat \<times> pyfloat)" where
  "sample_proj c lon lat =
     (case (lon, lat) of
        (Fin x, Fin y) \<Rightarrow>
          if \<bar>x\<bar> \<le> 180 \<and> \<bar>y\<bar> \<le> 90 then Inr (Fin x, Fin y) else Inr (PInf, PInf)
      | _ \<Rightarrow> Inr (PInf, PInf))"

text \<open>\<open>sample_pct_2f\<close> writes a hundred times a number with two decimals, rounding
  half to even; the product is exact here, where the interpreter rounds it to a double.\<close>

fun dec_digits :: "nat \<Rightarrow> string" where
  "dec_digits n =
     (if n < 10 then [''0123456789'' ! n] else dec_digits (n div 10) @ [''0123456789'' ! (n mod 10)])"

definition sample_pct_2f :: "pyfloat \<Rightarrow> string" where
  "sample_pct_2f p =
     (case p of
        NaN \<Rightarrow> ''nan'' | PInf \<Rightarrow> ''inf'' | NInf \<Rightarrow> ''-inf''
      | Fin r \<Rightarrow>
          (let a = \<bar>r\<bar> * 10000; q = nat \<lfloor>a\<rfloor>;
               n = (if a - real q > 1 / 2 \<or> (a - real q = 1 / 2 \<and> odd q) then q + 1 else q)
           in (if r < 0 then ''-'' else []) @ dec_digits (n div 100) @ ''.''
              @ [''0123456789'' ! (n div 10 mod 10), ''0123456789'' ! (n mod 10)]))"

definition sample_lib :: "box lib" where
  "sample_lib = \<lparr>
     float_of_str = sample_float_of_str,
     int_of_str = sample_int_of_str,
     float_of_bigint = (\<lambda>i. None),
     str_of = (\<lambda>v. ''?''),
     pct_2f = sample_pct_2f,
     proj_transform = sample_proj,
     rasterio_open = (\<lambda>path. if path = ''./data/slope_map/slope.tif'' then Inr sample_raster
                               else Inl (LibError ''RasterioIOError'')),
     point_is_valid = (\<lambda>lon lat. True),
     intersects = box_intersects \<rparr>"

text \<open>Two overlapping boxes; the index lists its candidates as its tree holds them,
  here the later row first.\<close>

definition sample_rows :: "(box \<times> (string \<times> pyval) list) list" where
  "sample_rows =
     [((0, 0, 2, 2), [(''SNUM'', PStr ''S12'')]),
      ((1, 1, 3, 3), [(''SNUM'', PStr ''S7'')])]"

definition bbox_hits :: "box \<Rightarrow> (pyfloat \<times> pyfloat \<times> pyfloat \<times> pyfloat) \<Rightarrow> bool" where
  "bbox_hits g q =
     (case g of (l, b, r, t) \<Rightarrow> case q of (x0, y0, x1, y1) \<Rightarrow>
        fle (Fin l) x1 \<and> fle x0 (Fin r) \<and> fle (Fin b) y1 \<and> fle y0 (Fin t))"

definition sample_gdf :: "box gdf" where
  "sample_gdf = \<lparr>
     rows = sample_rows,
     sindex_intersection = (\<lambda>q. Inr (filter (\<lambda>i. bbox_hits (fst (sample_rows ! i)) q) [1, 0])) \<rparr>"


text \<open>The sample scaler converts each feature to a float and leaves it as it is; the
  sample classifier gives class 1 the probability 0.75 when the first feature is 1, and
  both classes 0.5 otherwise.\<close>

definition sample_scaler :: scaler_obj where
  "sample_scaler = \<lparr> transform = (\<lambda>X. mapM_exn (mapM_exn (py_float sample_lib)) X) \<rparr>"

definition sample_model :: model_obj where
  "sample_model = \<lparr> predict_proba = (\<lambda>X. Inr (map (\<lambda>row.
      if take 1 row = [Fin 1] then [Fin 0.25, Fin 0.75] else [Fin 0.5, Fin 0.5]) X)) \<rparr>"

definition sample_server :: "box server" where
  "sample_server = \<lparr>
     soil_gdf = Some sample_gdf,
     slope_tif = Some ''./data/slope_map/slope.tif'',
     model = Some sample_model,
     scaler = Some sample_scaler \<rparr>"

section \<open>Auxiliary lemmas\<close>


lemma mapM_exn_Inl:
  "x \<in> set xs \<Longrightarrow> f x = Inl e \<Longrightarrow> \<exists>e'. mapM_exn f xs = Inl e'"
proof (induction xs)
  case Nil
  then show ?case by simp
next
  case (Cons a xs)
  show ?case
  proof (cases "f a")
    case (Inl e0)
    then show ?thesis by (simp add: bind_exn_def)
  next
    case (Inr y)
    with Cons have "x \<in> set xs" by auto
    with Cons obtain e' where "mapM_exn f xs = Inl e'" by blast
    with Inr show ?thesis by (simp add: bind_exn_def)
  qed
qed

lemma mapM_exn_length:
  "mapM_exn f xs = Inr ys \<Longrightarrow> length ys = length xs"
  by (induction xs arbitrary: ys) (auto simp: bind_exn_def split: sum.splits)






lemma sample_open: "rasterio_open sample_lib ''./data/slope_map/slope.tif'' = Inr sample_raster"
  by (simp add: sample_lib_def)

lemma float_field_get:
  "float_field L kvs k f \<Longrightarrow> bind_exn (dict_get (PDict kvs) k (PInt 0)) (py_float L) = Inr f"
  by (auto simp: float_field_def dict_get_def bind_exn_def split: option.splits)

lemma int_field_get:
  "int_field L kvs k i \<Longrightarrow> bind_exn (dict_get (PDict kvs) k (PInt 0)) (py_int L) = Inr i"
  by (auto simp: int_field_def dict_get_def bind_exn_def split: option.splits)

lemma mapM_exn_Cons_Inr:
  "f x = Inr y \<Longrightarrow> mapM_exn f xs = Inr ys \<Longrightarrow> mapM_exn f (x # xs) = Inr (y # ys)"
  by (simp add: bind_exn_def)

lemma build_features_length:
  "build_features L data = Inr fv \<Longrightarrow> length fv = 15"
  by (auto simp: build_features_def bind_exn_def float_keys_def
      split: sum.splits dest!: mapM_exn_length)

lemma py_max_pair: "py_max [Fin p0, Fin p1] = Inr (Fin (max p0 p1))"
  by (auto simp: py_max_def max_def)

lemma np_argmax_pair: "np_argmax [Fin p0, Fin p1] = Inr (if p1 > p0 then 1 else 0)"
  by (simp add: np_argmax_def)

lemma build_features_bad_field:
  assumes "map_of kvs k = Some v"
    and "(k = ''soil_type'' \<and> py_int L v = Inl e) \<or> (k \<in> set float_keys \<and> py_float L v = Inl e)"
  shows "\<exists>e'. build_features L (PDict kvs) = Inl e'"
proof (cases "bind_exn (dict_get (PDict kvs) ''soil_type'' (PInt 0)) (py_int L)")
  case (Inl e0)
  then show ?thesis by (simp add: build_features_def bind_exn_def)
next
  case (Inr st)
  with assms have k: "k \<in> set float_keys" and bad: "py_float L v = Inl e"
    by (auto simp: dict_get_def bind_exn_def)
  from assms(1) bad
  have "bind_exn (dict_get (PDict kvs) k (PInt 0)) (py_float L) = Inl e"
    by (simp add: dict_get_def bind_exn_def)
  from mapM_exn_Inl [where f = "\<lambda>k. bind_exn (dict_get (PDict kvs) k (PInt 0)) (py_float L)", OF k this] obtain e' where
    "mapM_exn (\<lambda>k. bind_exn (dict_get (PDict kvs) k (PInt 0)) (py_float L)) float_keys = Inl e'"
    by blast
  with Inr show ?thesis by (simp add: build_features_def bind_exn_def)
qed

lemma get_slope_returns: "\<exists>v. get_slope L S lon lat = Inr v"
  by (simp add: get_slope_def split: option.splits sum.splits)

lemma get_soil_type_returns: "\<exists>v. get_soil_type L S lon lat = Inr v"
  by (simp add: get_soil_type_def split: option.splits sum.splits)

lemma get_geo_data_error_text_raises:
  assumes "args_get_float L args ''lat'' = Some lat"
    and "args_get_float L args ''lon'' = Some lon"
    and "slope_tif S = None"
    and "float_of_str L ''Error: Raster file not loaded on server'' = None"
  shows "get_geo_data L S args = Inl ValueError"
proof -
  have slope: "get_slope L S lon lat = Inr (PStr ''Error: Raster file not loaded on server'')"
    using assms(3) by (simp add: get_slope_def)
  obtain soil where soil: "get_soil_type L S lon lat = Inr soil"
    using get_soil_type_returns by blast
  show ?thesis
    using assms(1,2,4) slope soil by (simp add: get_geo_data_def bind_exn_def)
qed

lemma sample_features:
  "build_features sample_lib (PDict [(''soil_type'', PInt 1)]) = Inr (PInt 1 # replicate 14 (PFloat (Fin 0)))"
  by (simp add: build_features_def float_keys_def dict_get_def bind_exn_def numeral_eq_Suc)

lemma sample_features_empty:
  "build_features sample_lib (PDict []) = Inr (PInt 0 # replicate 14 (PFloat (Fin 0)))"
  by (simp add: build_features_def float_keys_def dict_get_def bind_exn_def numeral_eq_Suc)

lemma sample_transform:
  "transform sample_scaler [PInt i # replicate 14 (PFloat (Fin 0))]
   = (if \<bar>i\<bar> \<le> 2 ^ 53 then Inr [Fin (of_int i) # replicate 14 (Fin 0)] else Inl OverflowError)"
  by (simp add: sample_scaler_def bind_exn_def numeral_eq_Suc sample_lib_def)

section \<open>Soil lookup: which polygon answers (C1)\<close>




section \<open>Raster sampling (C2, C4)\<close>

text \<open>
  C2: for a point whose coordinates in the raster's reference system are outside the
  bounds rectangle, and for a point whose pixel indices are outside
  \<open>[0, height) \<times> [0, width)\<close>, \<open>get_slope\<close> returns \<open>None\<close>; it does not raise.
\<close>

theorem get_slope_outside_is_null:
  assumes "slope_tif S = Some path"
    and "rasterio_open L path = Inr src"
    and "convert_coords L lon lat (crs src) = Inr (x, y)"
    and "\<not> (fle (bounds_left src) x \<and> fle x (bounds_right src)
            \<and> fle (bounds_bottom src) y \<and> fle y (bounds_top src))
         \<or> (index src x y = Inr (row, col)
            \<and> \<not> (0 \<le> row \<and> row < height src \<and> 0 \<le> col \<and> col < width src))"
  shows "get_slope L S lon lat = Inr PNone"
  using assms by (auto simp: get_slope_def sample_slope_def bind_exn_def)

theorem get_slope_outside_is_null_witness:
  "slope_tif sample_server = Some ''./data/slope_map/slope.tif''
   \<and> convert_coords sample_lib (Fin 2) (Fin 1.5) (crs sample_raster) = Inr (Fin 2, Fin 1.5)
   \<and> fle (bounds_left sample_raster) (Fin 2) \<and> fle (Fin 2) (bounds_right sample_raster)
   \<and> index sample_raster (Fin 2) (Fin 1.5) = Inr (0, 2)
   \<and> \<not> 2 < width sample_raster
   \<and> get_slope sample_lib sample_server (Fin 2) (Fin 1.5) = Inr PNone"
proof -
  have tif: "slope_tif sample_server = Some ''./data/slope_map/slope.tif''"
    by (simp add: sample_server_def)
  have cc: "convert_coords sample_lib (Fin 2) (Fin 1.5) (crs sample_raster) = Inr (Fin 2, Fin 1.5)"
    by (simp add: convert_coords_def sample_lib_def sample_proj_def)
  have ix: "index sample_raster (Fin 2) (Fin 1.5) = Inr (0, 2)"
    by (simp add: sample_raster_def)
  have w: "\<not> 2 < width sample_raster"
    by (simp add: sample_raster_def)
  have off: "\<not> (fle (bounds_left sample_raster) (Fin 2) \<and> fle (Fin 2) (bounds_right sample_raster)
             \<and> fle (bounds_bottom sample_raster) (Fin 1.5) \<and> fle (Fin 1.5) (bounds_top sample_raster))
         \<or> (index sample_raster (Fin 2) (Fin 1.5) = Inr (0, 2)
            \<and> \<not> (0 \<le> (0::int) \<and> 0 < height sample_raster \<and> 0 \<le> (2::int) \<and> 2 < width sample_raster))"
    using ix w by simp
  have inb: "fle (bounds_left sample_raster) (Fin 2) \<and> fle (Fin 2) (bounds_right sample_raster)"
    by (simp add: sample_raster_def)
  from get_slope_outside_is_null [OF tif sample_open cc off] tif cc ix w inb
  show ?thesis by blast
qed

text \<open>
  C4: for a pixel inside the grid, \<open>get_slope\<close> returns \<open>None\<close> when a nodata value is
  declared and the pixel equals it, or the pixel is not-a-number; otherwise it returns
  the pixel's value as a float.
\<close>

theorem get_slope_pixel_value:
  assumes "slope_tif S = Some path"
    and "rasterio_open L path = Inr src"
    and "convert_coords L lon lat (crs src) = Inr (x, y)"
    and "fle (bounds_left src) x \<and> fle x (bounds_right src)
         \<and> fle (bounds_bottom src) y \<and> fle y (bounds_top src)"
    and "index src x y = Inr (row, col)"
    and "0 \<le> row \<and> row < height src \<and> 0 \<le> col \<and> col < width src"
    and "read_px src row col = Inr v"
  shows "get_slope L S lon lat =
         Inr (if (\<exists>nd. nodata src = Some nd \<and> feq v nd) \<or> isnan v then PNone else PFloat v)"
  using assms by (auto simp: get_slope_def sample_slope_def bind_exn_def split: option.splits)

theorem get_slope_pixel_value_witness:
  "get_slope sample_lib sample_server (Fin 0.5) (Fin 1.5) = Inr (PFloat (Fin 4.7))
   \<and> get_slope sample_lib sample_server (Fin 1.5) (Fin 1.5) = Inr PNone
   \<and> get_slope sample_lib sample_server (Fin 0.5) (Fin 0.5) = Inr PNone"
proof -
  have tif: "slope_tif sample_server = Some ''./data/slope_map/slope.tif''"
    by (simp add: sample_server_def)
  have cc: "convert_coords sample_lib (Fin a) (Fin b) (crs sample_raster) = Inr (Fin a, Fin b)"
    if "\<bar>a\<bar> \<le> 180" "\<bar>b\<bar> \<le> 90" for a b
    using that by (simp add: convert_coords_def sample_lib_def sample_proj_def)
  have inb: "fle (bounds_left sample_raster) (Fin a) \<and> fle (Fin a) (bounds_right sample_raster)
         \<and> fle (bounds_bottom sample_raster) (Fin b) \<and> fle (Fin b) (bounds_top sample_raster)"
    if "0 \<le> a" "a \<le> 2" "0 \<le> b" "b \<le> 2" for a b
    using that by (simp add: sample_raster_def)
  have grid: "0 \<le> r \<and> r < height sample_raster \<and> 0 \<le> c \<and> c < width sample_raster"
    if "r \<in> {0, 1}" "c \<in> {0, 1}" for r c
    using that by (auto simp: sample_raster_def)
  have i1: "index sample_raster (Fin 0.5) (Fin 1.5) = Inr (0, 0)"
    and i2: "index sample_raster (Fin 1.5) (Fin 1.5) = Inr (0, 1)"
    and i3: "index sample_raster (Fin 0.5) (Fin 0.5) = Inr (1, 0)"
    by (simp_all add: sample_raster_def)
  have r1: "read_px sample_raster 0 0 = Inr (Fin 4.7)"
    and r2: "read_px sample_raster 0 1 = Inr (Fin (- 9999))"
    and r3: "read_px sample_raster 1 0 = Inr NaN"
    by (simp_all add: sample_raster_def)
  have nd: "nodata sample_raster = Some (Fin (- 9999))"
    by (simp add: sample_raster_def)
  have "get_slope sample_lib sample_server (Fin 0.5) (Fin 1.5) = Inr (PFloat (Fin 4.7))"
    using get_slope_pixel_value [OF tif sample_open cc inb i1 grid r1] nd by simp
  moreover have "get_slope sample_lib sample_server (Fin 1.5) (Fin 1.5) = Inr PNone"
    using get_slope_pixel_value [OF tif sample_open cc inb i2 grid r2] nd by simp
  moreover have "get_slope sample_lib sample_server (Fin 0.5) (Fin 0.5) = Inr PNone"
    using get_slope_pixel_value [OF tif sample_open cc inb i3 grid r3] nd by simp
  ultimately show ?thesis by blast
qed

section \<open>Coordinate conversion (C3)\<close>

text \<open>
  C3, as stated: for coordinates that are not finite or lie outside \<open>|lat| \<le> 90\<close>,
  \<open>|lon| \<le> 180\<close>, the transform fails instead of returning a pair. \<open>convert_coords\<close>
  makes no check of its own; with a projection library that answers such input with
  infinities, it returns that pair.
\<close>

theorem convert_coords_out_of_domain_counterexample:
  "out_of_domain (Fin 200) (Fin 95)
   \<and> convert_coords sample_lib (Fin 200) (Fin 95) ''EPSG:32651'' = Inr (PInf, PInf)"
  by (simp add: out_of_domain_def convert_coords_def sample_lib_def sample_proj_def)

text \<open>
  C3, amended: for such coordinates \<open>convert_coords\<close> returns exactly what the projection
  library's transform of (lon, lat) returns: its pair, or its exception when it raises.
\<close>

theorem convert_coords_defers_to_library:
  "out_of_domain lon lat \<Longrightarrow> convert_coords L lon lat c = proj_transform L c lon lat"
  by (simp add: convert_coords_def)

theorem convert_coords_defers_to_library_witness:
  "out_of_domain NaN (Fin 10)
   \<and> convert_coords sample_lib NaN (Fin 10) ''EPSG:32651''
       = proj_transform sample_lib ''EPSG:32651'' NaN (Fin 10)
   \<and> convert_coords sample_lib NaN (Fin 10) ''EPSG:32651'' = Inr (PInf, PInf)"
proof -
  have dom: "out_of_domain NaN (Fin 10)"
    by (simp add: out_of_domain_def)
  have lib: "proj_transform sample_lib ''EPSG:32651'' NaN (Fin 10) = Inr (PInf, PInf)"
    by (simp add: sample_lib_def sample_proj_def)
  from convert_coords_defers_to_library [OF dom, of sample_lib "''EPSG:32651''"] dom lib
  show ?thesis by simp
qed

section \<open>The feature list (C5, C10)\<close>

text \<open>
  C5: for a request mapping whose entries under the fifteen keys convert, the feature
  list has exactly fifteen numbers in the order of the schema: the integer for
  \<open>soil_type\<close>, then the floats for slope, soil moisture, the rainfall sums and
  intensities over 3, 6 and 12 hours and over 1, 3 and 5 days; a key that is absent
  contributes 0.
\<close>

theorem build_features_schema:
  assumes "int_field L kvs ''soil_type'' v0"
    and "float_field L kvs ''slope'' v1"
    and "float_field L kvs ''soil_moisture'' v2"
    and "float_field L kvs ''rainfall-3-hr'' v3"
    and "float_field L kvs ''rainfall-6-hr'' v4"
    and "float_field L kvs ''rainfall-12-hr'' v5"
    and "float_field L kvs ''rain-intensity-3-hr'' v6"
    and "float_field L kvs ''rain-intensity-6hr'' v7"
    and "float_field L kvs ''rain-intensity-12-hr'' v8"
    and "float_field L kvs ''rainfall-1-day'' v9"
    and "float_field L kvs ''rainfall-3-day'' v10"
    and "float_field L kvs ''rainfall-5-day'' v11"
    and "float_field L kvs ''rain-intensity-1-day'' v12"
    and "float_field L kvs ''rain-intensity-3-day'' v13"
    and "float_field L kvs ''rain-intensity-5-day'' v14"
  shows "build_features L (PDict kvs) =
         Inr [PInt v0, PFloat v1, PFloat v2, PFloat v3, PFloat v4, PFloat v5, PFloat v6, PFloat v7,
              PFloat v8, PFloat v9, PFloat v10, PFloat v11, PFloat v12, PFloat v13, PFloat v14]"
proof -
  have "mapM_exn (\<lambda>k. bind_exn (dict_get (PDict kvs) k (PInt 0)) (py_float L)) float_keys
        = Inr [v1, v2, v3, v4, v5, v6, v7, v8, v9, v10, v11, v12, v13, v14]"
    unfolding float_keys_def
    by (intro mapM_exn_Cons_Inr) (simp_all add: float_field_get assms)
  moreover have "bind_exn (dict_get (PDict kvs) ''soil_type'' (PInt 0)) (py_int L) = Inr v0"
    using assms(1) by (rule int_field_get)
  ultimately show ?thesis
    by (simp add: build_features_def bind_exn_def)
qed

theorem build_features_schema_witness:
  "int_field sample_lib [(''slope'', PFloat (Fin 2.5)), (''soil_type'', PStr ''3''),
                         (''rainfall-5-day'', PInt 40), (''station'', PStr ''x'')] ''soil_type'' 3
   \<and> float_field sample_lib [(''slope'', PFloat (Fin 2.5)), (''soil_type'', PStr ''3''),
                         (''rainfall-5-day'', PInt 40), (''station'', PStr ''x'')] ''soil_moisture'' (Fin 0)
   \<and> build_features sample_lib
        (PDict [(''slope'', PFloat (Fin 2.5)), (''soil_type'', PStr ''3''),
                (''rainfall-5-day'', PInt 40), (''station'', PStr ''x'')])
      = Inr [PInt 3, PFloat (Fin 2.5), PFloat (Fin 0), PFloat (Fin 0), PFloat (Fin 0),
             PFloat (Fin 0), PFloat (Fin 0), PFloat (Fin 0), PFloat (Fin 0), PFloat (Fin 0),
             PFloat (Fin 0), PFloat (Fin 40), PFloat (Fin 0), PFloat (Fin 0), PFloat (Fin 0)]"
proof -
  let ?kvs = "[(''slope'', PFloat (Fin 2.5)), (''soil_type'', PStr ''3''),
               (''rainfall-5-day'', PInt 40), (''station'', PStr ''x'')]"
  have st: "int_field sample_lib ?kvs ''soil_type'' 3"
    by (simp add: int_field_def sample_lib_def sample_int_of_str_def)
  have sl: "float_field sample_lib ?kvs ''slope'' (Fin 2.5)"
    by (simp add: float_field_def)
  have r5: "float_field sample_lib ?kvs ''rainfall-5-day'' (Fin 40)"
    by (simp add: float_field_def)
  have z: "float_field sample_lib ?kvs ''soil_moisture'' (Fin 0)"
    "float_field sample_lib ?kvs ''rainfall-3-hr'' (Fin 0)"
    "float_field sample_lib ?kvs ''rainfall-6-hr'' (Fin 0)"
    "float_field sample_lib ?kvs ''rainfall-12-hr'' (Fin 0)"
    "float_field sample_lib ?kvs ''rain-intensity-3-hr'' (Fin 0)"
    "float_field sample_lib ?kvs ''rain-intensity-6hr'' (Fin 0)"
    "float_field sample_lib ?kvs ''rain-intensity-12-hr'' (Fin 0)"
    "float_field sample_lib ?kvs ''rainfall-1-day'' (Fin 0)"
    "float_field sample_lib ?kvs ''rainfall-3-day'' (Fin 0)"
    "float_field sample_lib ?kvs ''rain-intensity-1-day'' (Fin 0)"
    "float_field sample_lib ?kvs ''rain-intensity-3-day'' (Fin 0)"
    "float_field sample_lib ?kvs ''rain-intensity-5-day'' (Fin 0)"
    by (simp_all add: float_field_def)
  from build_features_schema [OF st sl z(1-9) r5 z(10-12)] st z(1)
  show ?thesis by blast
qed



section \<open>Inference (C6, C7, C8)\<close>

text \<open>
  C6: with the two class probabilities \<open>p0\<close> and \<open>p1\<close>, the label is that of the class
  with the larger probability, class 0 (\<open>No Landslide\<close>) when they are equal, and the
  confidence is the text of the larger probability as a percentage with two decimals.
\<close>

theorem predict_label_and_confidence:
  assumes "model S = Some m"
    and "scaler S = Some sc"
    and "build_features L data = Inr features"
    and "transform sc [features] = Inr features_scaled"
    and "predict_proba m features_scaled = Inr ([Fin p0, Fin p1] # others)"
  shows "predict L S (Inr data) =
         Inr (Prediction (if p1 > p0 then ''Landslide'' else ''No Landslide'')
                         (pct_2f L (Fin (max p0 p1)) @ ''%''), 200)"
  using assms
  by (simp add: predict_def predict_try_def bind_exn_def first_row_def py_max_pair np_argmax_pair)

theorem predict_label_and_confidence_witness:
  "predict sample_lib sample_server (Inr (PDict [(''soil_type'', PInt 1)]))
     = Inr (Prediction ''Landslide'' ''75.00%'', 200)
   \<and> predict sample_lib sample_server (Inr (PDict []))
     = Inr (Prediction ''No Landslide'' ''50.00%'', 200)"
proof -
  have m: "model sample_server = Some sample_model" and sc: "scaler sample_server = Some sample_scaler"
    by (simp_all add: sample_server_def)
  have t1: "transform sample_scaler [PInt 1 # replicate 14 (PFloat (Fin 0))]
            = Inr [Fin 1 # replicate 14 (Fin 0)]"
    by (simp add: sample_transform)
  have t0: "transform sample_scaler [PInt 0 # replicate 14 (PFloat (Fin 0))]
            = Inr [Fin 0 # replicate 14 (Fin 0)]"
    by (simp add: sample_transform)
  have p1: "predict_proba sample_model [Fin 1 # replicate 14 (Fin 0)] = Inr ([Fin 0.25, Fin 0.75] # [])"
    by (simp add: sample_model_def)
  have p0: "predict_proba sample_model [Fin 0 # replicate 14 (Fin 0)] = Inr ([Fin 0.5, Fin 0.5] # [])"
    by (simp add: sample_model_def)
  have f1: "pct_2f sample_lib (Fin (max 0.25 0.75)) = ''75.00''"
    by (simp add: sample_lib_def sample_pct_2f_def Let_def)
  have f0: "pct_2f sample_lib (Fin (max 0.5 0.5)) = ''50.00''"
    by (simp add: sample_lib_def sample_pct_2f_def Let_def)
  from predict_label_and_confidence [OF m sc sample_features t1 p1] f1
  have "predict sample_lib sample_server (Inr (PDict [(''soil_type'', PInt 1)]))
        = Inr (Prediction ''Landslide'' ''75.00%'', 200)"
    by simp
  moreover
  from predict_label_and_confidence [OF m sc sample_features_empty t0 p0] f0
  have "predict sample_lib sample_server (Inr (PDict []))
        = Inr (Prediction ''No Landslide'' ''50.00%'', 200)"
    by simp
  ultimately show ?thesis by blast
qed

text \<open>
  C7: when reading the model or the scaler failed at start, every request to \<open>predict\<close>
  is answered with status 503 and the fixed message. The handler only reads the two
  globals; it has no access to the files, so nothing is loaded or tried again.
\<close>

theorem predict_unavailable:
  assumes "isl model_file \<or> isl scaler_file"
    and "(model S, scaler S) = load_models model_file scaler_file"
  shows "predict L S rq =
         Inr (ErrorText ''Machine learning models are not loaded on the server'', 503)"
  using assms
  by (auto simp: predict_def load_models_def isl_def split: sum.splits)

theorem predict_unavailable_witness:
  "isl (Inl (LibError ''FileNotFoundError'') :: pyexn + model_obj)
   \<and> load_models (Inl (LibError ''FileNotFoundError'')) (Inr sample_scaler) = (None, None)
   \<and> predict sample_lib (sample_server\<lparr>model := None, scaler := None\<rparr>) (Inr (PDict [(''soil_type'', PInt 1)]))
     = Inr (ErrorText ''Machine learning models are not loaded on the server'', 503)"
proof -
  have a: "isl (Inl (LibError ''FileNotFoundError'') :: pyexn + model_obj) \<or> isl (Inr sample_scaler :: pyexn + scaler_obj)"
    by simp
  have ld: "load_models (Inl (LibError ''FileNotFoundError'')) (Inr sample_scaler) = (None, None)"
    by (simp add: load_models_def)
  have b: "(model (sample_server\<lparr>model := None, scaler := None\<rparr>),
            scaler (sample_server\<lparr>model := None, scaler := None\<rparr>))
           = load_models (Inl (LibError ''FileNotFoundError'')) (Inr sample_scaler)"
    by (simp add: ld)
  from predict_unavailable [OF a b] ld show ?thesis by simp
qed

text \<open>
  C8: with the model and the scaler loaded, a request mapping with an entry under one of
  the fifteen keys that does not convert to its type is answered with status 400 and the
  text of an exception, not with the 503 of the missing estimators.
\<close>

theorem predict_bad_field_is_400:
  assumes "model S = Some m"
    and "scaler S = Some sc"
    and "map_of kvs k = Some v"
    and "(k = ''soil_type'' \<and> py_int L v = Inl e) \<or> (k \<in> set float_keys \<and> py_float L v = Inl e)"
  shows "\<exists>e'. predict L S (Inr (PDict kvs)) = Inr (ErrorStr e', 400)"
proof -
  from build_features_bad_field [OF assms(3,4)] obtain e' where
    "build_features L (PDict kvs) = Inl e'" by blast
  with assms(1,2) show ?thesis
    by (simp add: predict_def predict_try_def bind_exn_def)
qed

theorem predict_bad_field_is_400_witness:
  "model sample_server = Some sample_model \<and> scaler sample_server = Some sample_scaler
   \<and> ''slope'' \<in> set float_keys
   \<and> py_float sample_lib (PStr ''steep'') = Inl ValueError
   \<and> (\<exists>e'. predict sample_lib sample_server (Inr (PDict [(''soil_type'', PInt 1), (''slope'', PStr ''steep'')]))
            = Inr (ErrorStr e', 400))"
proof -
  have m: "model sample_server = Some sample_model" and sc: "scaler sample_server = Some sample_scaler"
    by (simp_all add: sample_server_def)
  have k: "''slope'' \<in> set float_keys"
    by (simp add: float_keys_def)
  have bad: "py_float sample_lib (PStr ''steep'') = Inl ValueError"
    by (simp add: sample_lib_def sample_float_of_str_def)
  have v: "map_of [(''soil_type'', PInt 1), (''slope'', PStr ''steep'')] ''slope'' = Some (PStr ''steep'')"
    by simp
  have d: "(''slope'' = ''soil_type'' \<and> py_int sample_lib (PStr ''steep'') = Inl ValueError)
           \<or> (''slope'' \<in> set float_keys \<and> py_float sample_lib (PStr ''steep'') = Inl ValueError)"
    using k bad by simp
  from predict_bad_field_is_400 [OF m sc v d] m sc k bad show ?thesis by blast
qed

section \<open>Failures in the geo-data handler (C9)\<close>

text \<open>
  C9 says that every internal failure of a geo-attribute query becomes a structured
  failure response. \<open>get_slope\<close> and \<open>get_soil_type\<close> do catch their failures and return a
  text, and the text of \<open>get_soil_type\<close> passes through \<open>str\<close>. The text of \<open>get_slope\<close> is
  given to \<open>float\<close>, which raises ValueError outside any \<open>try\<close>: with the raster file not
  loaded, a query with well-formed coordinates leaves the handler with an exception.
\<close>

theorem get_geo_data_raises_without_raster:
  "get_geo_data sample_lib (sample_server\<lparr>slope_tif := None\<rparr>) [(''lat'', ''1''), (''lon'', ''1'')]
   = Inl ValueError"
  by (rule get_geo_data_error_text_raises [where lat = "Fin 1" and lon = "Fin 1"])
     (simp_all add: args_get_float_def sample_lib_def sample_float_of_str_def)

end
